theory Spec2Isabelle
  imports Complex_Main
begin

section \<open>The estimate calculator of src/components/ProjectManagement.tsx\<close>

text \<open>
  The component \<open>EstimateCalculator\<close> keeps two pieces of state: the form data
  (\<open>estimateData\<close>) and the last computed estimate (\<open>calculatedEstimate\<close>, initially
  \<open>null\<close>). The callbacks \<open>calculateMaterials\<close> and \<open>calculateLaborAndEquipment\<close> read
  the form data; \<open>generateEstimate\<close> combines them and stores the result.

  A JavaScript \<open>number\<close> is modelled as an exact rational: sums, products, quotients,
  comparisons and \<open>Math.ceil\<close> are the mathematical ones, and the rounding of IEEE
  doubles, \<open>NaN\<close> and the infinities are left out of the model (the handlers of the
  form replace a \<open>NaN\<close> by a default before it reaches the state). The source never
  divides by anything but a non-zero constant.
\<close>

type_synonym number = rat

definition Math_ceil :: "number \<Rightarrow> number" where
  "Math_ceil x = of_int \<lceil>x\<rceil>"

definition Math_max :: "number \<Rightarrow> number \<Rightarrow> number" where
  "Math_max a b = max a b"

subsection \<open>Configuration constants\<close>

text \<open>\<open>BUSINESS_CONFIG.blendedLaborRate\<close>\<close>

definition BUSINESS_CONFIG_blendedLaborRate :: number where
  "BUSINESS_CONFIG_blendedLaborRate = 45"

text \<open>\<open>MATERIAL_COSTS\<close>\<close>

definition MATERIAL_COSTS_sealMasterPMM :: number where
  "MATERIAL_COSTS_sealMasterPMM = 379 / 100"

definition MATERIAL_COSTS_sand50lb :: number where
  "MATERIAL_COSTS_sand50lb = 10"

definition MATERIAL_COSTS_prepSeal5gal :: number where
  "MATERIAL_COSTS_prepSeal5gal = 50"

definition MATERIAL_COSTS_fastDry5gal :: number where
  "MATERIAL_COSTS_fastDry5gal = 50"

definition MATERIAL_COSTS_crackMaster30lb :: number where
  "MATERIAL_COSTS_crackMaster30lb = 4495 / 100"

text \<open>\<open>APPLICATION_RATES\<close>\<close>

definition APPLICATION_RATES_sealcoat_firstCoat :: number where
  "APPLICATION_RATES_sealcoat_firstCoat = 144 / 10000"

definition APPLICATION_RATES_sealcoat_additionalCoats :: number where
  "APPLICATION_RATES_sealcoat_additionalCoats = 111 / 10000"

definition APPLICATION_RATES_sandMixRatio :: number where
  "APPLICATION_RATES_sandMixRatio = 300"

definition APPLICATION_RATES_waterRatio :: number where
  "APPLICATION_RATES_waterRatio = 20 / 100"

subsection \<open>Data\<close>

text \<open>\<open>interface EstimateData\<close>: the form data.\<close>

record EstimateData =
  projectType :: string
  squareFootage :: number
  linearFootage :: number
  numberOfCoats :: number
  crackSeverity :: string
  oilSpotArea :: number
  parkingStalls :: number
  clientName :: string
  jobSiteAddress :: string
  travelDistance :: number
  profitMargin :: number
  additionalNotes :: string

text \<open>The object \<open>materials\<close> of \<open>calculateMaterials\<close>.\<close>

record Materials =
  sealMasterPMM :: number
  sand :: number
  water :: number
  prepSeal :: number
  fastDry :: number
  crackMaster :: number
  totalMaterialCost :: number

text \<open>
  The object \<open>costs\<close> of \<open>calculateMaterials\<close>. Its keys are those of \<open>materials\<close>
  (without \<open>water\<close> and \<open>totalMaterialCost\<close>); the fields carry the prefix \<open>cost_\<close> to keep
  them apart from the fields of \<open>Materials\<close>.
\<close>

record Costs =
  cost_sealMasterPMM :: number
  cost_sand :: number
  cost_prepSeal :: number
  cost_fastDry :: number
  cost_crackMaster :: number

text \<open>The object returned by \<open>calculateLaborAndEquipment\<close>.\<close>

record Labor =
  laborHours :: number
  laborCost :: number
  equipmentCost :: number
  fuelCost :: number
  totalLabor :: number

text \<open>
  The object \<open>estimate\<close> of \<open>generateEstimate\<close>. The field \<open>total\<close> of the source is
  \<open>total_est\<close> here (\<open>total\<close> is a constant of HOL).
\<close>

record Estimate =
  materials :: Materials
  costs :: Costs
  labor :: Labor
  subtotal :: number
  overhead :: number
  profit :: number
  total_est :: number
  timestamp :: string

text \<open>The two state variables of the component.\<close>

record EstimateCalculator =
  estimateData :: EstimateData
  calculatedEstimate :: "Estimate option"

subsection \<open>calculateMaterials\<close>

text \<open>\<open>Object.values(costs)\<close>: the values in the order the keys were written.\<close>

definition Object_values :: "Costs \<Rightarrow> number list" where
  "Object_values c =
     [cost_sealMasterPMM c, cost_sand c, cost_prepSeal c, cost_fastDry c, cost_crackMaster c]"

text \<open>The block \<open>const costs = {...}\<close>, which reads the quantities of \<open>materials\<close> only.\<close>

definition materialCosts :: "Materials \<Rightarrow> Costs" where
  "materialCosts m =
     \<lparr> cost_sealMasterPMM = sealMasterPMM m * MATERIAL_COSTS_sealMasterPMM,
       cost_sand = Math_ceil (sand m / 50) * MATERIAL_COSTS_sand50lb,
       cost_prepSeal = prepSeal m * MATERIAL_COSTS_prepSeal5gal,
       cost_fastDry = Math_ceil (fastDry m / 5) * MATERIAL_COSTS_fastDry5gal,
       cost_crackMaster = crackMaster m * MATERIAL_COSTS_crackMaster30lb \<rparr>"

text \<open>The sealcoating block, run when \<open>squareFootage > 0\<close>.\<close>

definition sealcoating :: "EstimateData \<Rightarrow> Materials \<Rightarrow> Materials" where
  "sealcoating d m =
     (let firstCoatGallons = squareFootage d * APPLICATION_RATES_sealcoat_firstCoat;
          totalPMM =
            (if numberOfCoats d > 1
             then firstCoatGallons +
                  squareFootage d * APPLICATION_RATES_sealcoat_additionalCoats * (numberOfCoats d - 1)
             else firstCoatGallons)
      in m\<lparr> sealMasterPMM := totalPMM,
            sand := (totalPMM / 100) * APPLICATION_RATES_sandMixRatio,
            water := totalPMM * APPLICATION_RATES_waterRatio,
            fastDry := (totalPMM / 125) * 2 \<rparr>)"

definition crackMultiplier :: "string \<Rightarrow> number" where
  "crackMultiplier severity =
     (if severity = ''severe'' then 15 / 10 else if severity = ''moderate'' then 12 / 10 else 1)"

definition calculateMaterials :: "EstimateData \<Rightarrow> Materials \<times> Costs" where
  "calculateMaterials d =
     (let m0 = \<lparr> sealMasterPMM = 0, sand = 0, water = 0, prepSeal = 0, fastDry = 0,
                 crackMaster = 0, totalMaterialCost = 0 \<rparr>;
          m1 = (if squareFootage d > 0 then sealcoating d m0 else m0);
          m2 = (if oilSpotArea d > 0
                then m1\<lparr> prepSeal := Math_ceil (oilSpotArea d / 175) \<rparr> else m1);
          m3 = (if linearFootage d > 0
                then m2\<lparr> crackMaster :=
                       Math_ceil ((linearFootage d * crackMultiplier (crackSeverity d)) / 100) \<rparr>
                else m2);
          c = materialCosts m3;
          m4 = m3\<lparr> totalMaterialCost := foldl (\<lambda>sum cost. sum + cost) 0 (Object_values c) \<rparr>
      in (m4, c))"

subsection \<open>calculateLaborAndEquipment\<close>

definition calculateLaborAndEquipment :: "EstimateData \<Rightarrow> Labor" where
  "calculateLaborAndEquipment d =
     (let h0 = 0;
          h1 = (if squareFootage d > 0 then h0 + (squareFootage d / 1000) * 2 else h0);
          h2 = (if linearFootage d > 0 then h1 + linearFootage d / 100 else h1);
          laborHours' = Math_max h2 4;
          laborCost' = laborHours' * BUSINESS_CONFIG_blendedLaborRate * 3;
          equipmentHours = laborHours';
          equipmentCost' = equipmentHours * 50;
          roundTripMiles = travelDistance d * 2;
          fuelCost' = (roundTripMiles / 15) * (450 / 100)
      in \<lparr> laborHours = laborHours', laborCost = laborCost', equipmentCost = equipmentCost',
           fuelCost = fuelCost', totalLabor = laborCost' + equipmentCost' + fuelCost' \<rparr>)"

subsection \<open>generateEstimate\<close>

text \<open>
  \<open>generateEstimate\<close> returns nothing: it stores the estimate with
  \<open>setCalculatedEstimate\<close>. The model returns the component's new state. The first
  argument stands for \<open>new Date().toISOString()\<close>.
\<close>

definition generateEstimate :: "string \<Rightarrow> EstimateCalculator \<Rightarrow> EstimateCalculator" where
  "generateEstimate now st =
     (let (materials', costs') = calculateMaterials (estimateData st);
          labor' = calculateLaborAndEquipment (estimateData st);
          subtotal' = totalMaterialCost materials' + totalLabor labor';
          overhead' = subtotal' * (15 / 100);
          profit' = subtotal' * (profitMargin (estimateData st) / 100);
          total' = subtotal' + overhead' + profit';
          estimate = \<lparr> materials = materials', costs = costs', labor = labor',
                       subtotal = subtotal', overhead = overhead', profit = profit',
                       total_est = total', timestamp = now \<rparr>
      in st\<lparr> calculatedEstimate := Some estimate \<rparr>)"

subsection \<open>The input domain the specification names\<close>

text \<open>All numeric fields of the form data are non-negative.\<close>

definition nonneg_fields :: "EstimateData \<Rightarrow> bool" where
  "nonneg_fields d \<longleftrightarrow>
     0 \<le> squareFootage d \<and> 0 \<le> linearFootage d \<and> 0 \<le> numberOfCoats d \<and>
     0 \<le> oilSpotArea d \<and> 0 \<le> parkingStalls d \<and> 0 \<le> travelDistance d \<and>
     0 \<le> profitMargin d"

text \<open>
  A valid job: non-negative numeric fields, one to three coats, one of the three
  severities of the form, and a profit margin of at most 100 percent.
\<close>

definition valid_job :: "EstimateData \<Rightarrow> bool" where
  "valid_job d \<longleftrightarrow>
     nonneg_fields d \<and>
     (numberOfCoats d = 1 \<or> numberOfCoats d = 2 \<or> numberOfCoats d = 3) \<and>
     (crackSeverity d = ''light'' \<or> crackSeverity d = ''moderate'' \<or>
      crackSeverity d = ''severe'') \<and>
     profitMargin d \<le> 100"

subsection \<open>Sample jobs\<close>

text \<open>The initial form data of the component, with 1000 square feet entered.\<close>

definition job_1000 :: EstimateData where
  "job_1000 = \<lparr> projectType = '''', squareFootage = 1000, linearFootage = 0,
      numberOfCoats = 1, crackSeverity = ''light'', oilSpotArea = 0, parkingStalls = 0,
      clientName = '''', jobSiteAddress = '''', travelDistance = 0, profitMargin = 20,
      additionalNotes = '''' \<rparr>"

text \<open>A combination job: two coats, severe cracks, oil spots and a drive of 30 miles.\<close>

definition job_combo :: EstimateData where
  "job_combo = \<lparr> projectType = ''combination'', squareFootage = 2500, linearFootage = 500,
      numberOfCoats = 2, crackSeverity = ''severe'', oilSpotArea = 400, parkingStalls = 0,
      clientName = '''', jobSiteAddress = '''', travelDistance = 30, profitMargin = 20,
      additionalNotes = '''' \<rparr>"

text \<open>The first sample job with negative areas and a negative crack length typed in.\<close>

definition job_negative :: EstimateData where
  "job_negative = job_1000\<lparr> squareFootage := - 1000, linearFootage := - 500, oilSpotArea := - 400 \<rparr>"

text \<open>The first sample job with no area: every quantity of the form is zero.\<close>

definition job_zero :: EstimateData where
  "job_zero = job_1000\<lparr> squareFootage := 0 \<rparr>"

text \<open>Scenario 3 of the specification: 500 linear feet of severe cracks.\<close>

definition job_cracks :: EstimateData where
  "job_cracks = job_1000\<lparr> squareFootage := 0, linearFootage := 500, crackSeverity := ''severe'' \<rparr>"

text \<open>The first sample job with 400 square feet of oil spots.\<close>

definition job_oil :: EstimateData where
  "job_oil = job_1000\<lparr> oilSpotArea := 400 \<rparr>"

text \<open>The component before the first estimate: \<open>calculatedEstimate\<close> is \<open>null\<close>.\<close>

definition initial :: "EstimateData \<Rightarrow> EstimateCalculator" where
  "initial d = \<lparr> estimateData = d, calculatedEstimate = None \<rparr>"

section \<open>Properties\<close>

lemmas config_defs =
  BUSINESS_CONFIG_blendedLaborRate_def
  MATERIAL_COSTS_sealMasterPMM_def MATERIAL_COSTS_sand50lb_def
  MATERIAL_COSTS_prepSeal5gal_def MATERIAL_COSTS_fastDry5gal_def
  MATERIAL_COSTS_crackMaster30lb_def
  APPLICATION_RATES_sealcoat_firstCoat_def APPLICATION_RATES_sealcoat_additionalCoats_def
  APPLICATION_RATES_sandMixRatio_def APPLICATION_RATES_waterRatio_def

subsection \<open>Rounding up\<close>

lemma Math_ceil_nonneg: "0 \<le> x \<Longrightarrow> 0 \<le> Math_ceil x"
  by (simp add: Math_ceil_def)

lemma Math_ceil_mono: "x \<le> y \<Longrightarrow> Math_ceil x \<le> Math_ceil y"
  by (simp add: Math_ceil_def ceiling_mono)

lemma Math_ceil_eqI: "of_int z - 1 < x \<Longrightarrow> x \<le> of_int z \<Longrightarrow> Math_ceil x = of_int z"
  by (simp add: Math_ceil_def ceiling_unique)

subsection \<open>What generateEstimate stores\<close>

lemma generateEstimate_result:
  "calculatedEstimate (generateEstimate now st) =
     Some \<lparr> materials = fst (calculateMaterials (estimateData st)),
            costs = snd (calculateMaterials (estimateData st)),
            labor = calculateLaborAndEquipment (estimateData st),
            subtotal = totalMaterialCost (fst (calculateMaterials (estimateData st)))
                       + totalLabor (calculateLaborAndEquipment (estimateData st)),
            overhead = (totalMaterialCost (fst (calculateMaterials (estimateData st)))
                       + totalLabor (calculateLaborAndEquipment (estimateData st))) * (15 / 100),
            profit = (totalMaterialCost (fst (calculateMaterials (estimateData st)))
                       + totalLabor (calculateLaborAndEquipment (estimateData st)))
                     * (profitMargin (estimateData st) / 100),
            total_est = (totalMaterialCost (fst (calculateMaterials (estimateData st)))
                       + totalLabor (calculateLaborAndEquipment (estimateData st)))
                 + (totalMaterialCost (fst (calculateMaterials (estimateData st)))
                       + totalLabor (calculateLaborAndEquipment (estimateData st))) * (15 / 100)
                 + (totalMaterialCost (fst (calculateMaterials (estimateData st)))
                       + totalLabor (calculateLaborAndEquipment (estimateData st)))
                     * (profitMargin (estimateData st) / 100),
            timestamp = now \<rparr>"
  by (simp add: generateEstimate_def Let_def split: prod.split)

subsection \<open>What the callbacks compute, field by field\<close>

lemma sealMasterPMM_eq:
  "sealMasterPMM (fst (calculateMaterials d)) =
     (if squareFootage d > 0
      then (if numberOfCoats d > 1
            then squareFootage d * (144 / 10000) + squareFootage d * (111 / 10000) * (numberOfCoats d - 1)
            else squareFootage d * (144 / 10000))
      else 0)"
  by (simp add: calculateMaterials_def sealcoating_def Let_def config_defs)

lemma sand_eq:
  "sand (fst (calculateMaterials d)) = sealMasterPMM (fst (calculateMaterials d)) / 100 * 300"
  by (simp add: calculateMaterials_def sealcoating_def Let_def config_defs)

lemma water_eq:
  "water (fst (calculateMaterials d)) = sealMasterPMM (fst (calculateMaterials d)) * (20 / 100)"
  by (simp add: calculateMaterials_def sealcoating_def Let_def config_defs)

lemma fastDry_eq:
  "fastDry (fst (calculateMaterials d)) = sealMasterPMM (fst (calculateMaterials d)) / 125 * 2"
  by (simp add: calculateMaterials_def sealcoating_def Let_def config_defs)

lemma prepSeal_eq:
  "prepSeal (fst (calculateMaterials d)) =
     (if oilSpotArea d > 0 then Math_ceil (oilSpotArea d / 175) else 0)"
  by (simp add: calculateMaterials_def sealcoating_def Let_def)

lemma crackMaster_eq:
  "crackMaster (fst (calculateMaterials d)) =
     (if linearFootage d > 0
      then Math_ceil ((linearFootage d * crackMultiplier (crackSeverity d)) / 100) else 0)"
  by (simp add: calculateMaterials_def sealcoating_def Let_def)

lemma costs_eq:
  "snd (calculateMaterials d) = materialCosts (fst (calculateMaterials d))"
  by (simp add: calculateMaterials_def Let_def materialCosts_def)

lemma totalMaterialCost_eq:
  "totalMaterialCost (fst (calculateMaterials d)) =
     cost_sealMasterPMM (snd (calculateMaterials d)) + cost_sand (snd (calculateMaterials d))
     + cost_prepSeal (snd (calculateMaterials d)) + cost_fastDry (snd (calculateMaterials d))
     + cost_crackMaster (snd (calculateMaterials d))"
  by (simp add: calculateMaterials_def Let_def Object_values_def)

lemma laborHours_eq:
  "laborHours (calculateLaborAndEquipment d) =
     max ((if squareFootage d > 0 then (squareFootage d / 1000) * 2 else 0)
          + (if linearFootage d > 0 then linearFootage d / 100 else 0)) 4"
  by (simp add: calculateLaborAndEquipment_def Let_def Math_max_def)

lemma labor_costs_eq:
  "laborCost (calculateLaborAndEquipment d) = laborHours (calculateLaborAndEquipment d) * 45 * 3"
  "equipmentCost (calculateLaborAndEquipment d) = laborHours (calculateLaborAndEquipment d) * 50"
  "fuelCost (calculateLaborAndEquipment d) = (travelDistance d * 2 / 15) * (450 / 100)"
  "totalLabor (calculateLaborAndEquipment d) =
     laborCost (calculateLaborAndEquipment d) + equipmentCost (calculateLaborAndEquipment d)
     + fuelCost (calculateLaborAndEquipment d)"
  by (simp_all add: calculateLaborAndEquipment_def Let_def config_defs)

subsection \<open>Signs of the cost lines\<close>

lemma sealMasterPMM_nonneg:
  assumes "0 \<le> squareFootage d" and "1 \<le> numberOfCoats d"
  shows "0 \<le> sealMasterPMM (fst (calculateMaterials d))"
  using assms by (simp add: sealMasterPMM_eq)

lemma material_costs_nonneg:
  assumes "0 \<le> squareFootage d" and "1 \<le> numberOfCoats d"
  shows "0 \<le> cost_sealMasterPMM (snd (calculateMaterials d))"
    and "0 \<le> cost_sand (snd (calculateMaterials d))"
    and "0 \<le> cost_prepSeal (snd (calculateMaterials d))"
    and "0 \<le> cost_fastDry (snd (calculateMaterials d))"
    and "0 \<le> cost_crackMaster (snd (calculateMaterials d))"
proof -
  let ?m = "fst (calculateMaterials d)"
  have pmm: "0 \<le> sealMasterPMM ?m" using assms by (rule sealMasterPMM_nonneg)
  show "0 \<le> cost_sealMasterPMM (snd (calculateMaterials d))"
    using pmm by (simp add: costs_eq materialCosts_def config_defs)
  have "0 \<le> sand ?m / 50" using pmm by (simp add: sand_eq)
  then show "0 \<le> cost_sand (snd (calculateMaterials d))"
    by (simp add: costs_eq materialCosts_def config_defs Math_ceil_nonneg)
  have "0 \<le> prepSeal ?m" by (simp add: prepSeal_eq Math_ceil_nonneg)
  then show "0 \<le> cost_prepSeal (snd (calculateMaterials d))"
    by (simp add: costs_eq materialCosts_def config_defs)
  have "0 \<le> fastDry ?m / 5" using pmm by (simp add: fastDry_eq)
  then show "0 \<le> cost_fastDry (snd (calculateMaterials d))"
    by (simp add: costs_eq materialCosts_def config_defs Math_ceil_nonneg)
  have "0 \<le> crackMaster ?m"
    by (simp add: crackMaster_eq crackMultiplier_def Math_ceil_nonneg)
  then show "0 \<le> cost_crackMaster (snd (calculateMaterials d))"
    by (simp add: costs_eq materialCosts_def config_defs)
qed

lemma laborHours_ge_4: "4 \<le> laborHours (calculateLaborAndEquipment d)"
  by (simp add: laborHours_eq)

lemma labor_costs_nonneg:
  assumes "0 \<le> travelDistance d"
  shows "0 \<le> laborCost (calculateLaborAndEquipment d)"
    and "0 \<le> equipmentCost (calculateLaborAndEquipment d)"
    and "0 \<le> fuelCost (calculateLaborAndEquipment d)"
  using assms laborHours_ge_4 [of d] by (simp_all add: labor_costs_eq)

subsection \<open>Fields the results do not depend on\<close>

lemma calculateMaterials_cong:
  assumes "(if squareFootage d > 0 then Some (squareFootage d, numberOfCoats d) else None) =
           (if squareFootage d' > 0 then Some (squareFootage d', numberOfCoats d') else None)"
    and "(if oilSpotArea d > 0 then oilSpotArea d else 0) = (if oilSpotArea d' > 0 then oilSpotArea d' else 0)"
    and "(if linearFootage d > 0 then Some (linearFootage d, crackMultiplier (crackSeverity d)) else None)
       = (if linearFootage d' > 0 then Some (linearFootage d', crackMultiplier (crackSeverity d')) else None)"
  shows "calculateMaterials d = calculateMaterials d'"
proof -
  have seal: "(if squareFootage d > 0 then sealcoating d m else m) =
              (if squareFootage d' > 0 then sealcoating d' m else m)" for m
    using assms(1) by (auto simp add: sealcoating_def Let_def split: if_splits)
  have oil: "(if oilSpotArea d > 0 then m\<lparr> prepSeal := Math_ceil (oilSpotArea d / 175) \<rparr> else m) =
             (if oilSpotArea d' > 0 then m\<lparr> prepSeal := Math_ceil (oilSpotArea d' / 175) \<rparr> else m)" for m
    using assms(2) by (auto split: if_splits)
  have crack: "(if linearFootage d > 0
                then m\<lparr> crackMaster :=
                       Math_ceil ((linearFootage d * crackMultiplier (crackSeverity d)) / 100) \<rparr>
                else m) =
               (if linearFootage d' > 0
                then m\<lparr> crackMaster :=
                       Math_ceil ((linearFootage d' * crackMultiplier (crackSeverity d')) / 100) \<rparr>
                else m)" for m
    using assms(3) by (auto split: if_splits)
  show ?thesis
    by (simp only: calculateMaterials_def Let_def seal oil crack)
qed

lemma calculateLaborAndEquipment_cong:
  assumes "(if squareFootage d > 0 then squareFootage d else 0) = (if squareFootage d' > 0 then squareFootage d' else 0)"
    and "(if linearFootage d > 0 then linearFootage d else 0) = (if linearFootage d' > 0 then linearFootage d' else 0)"
    and "travelDistance d = travelDistance d'"
  shows "calculateLaborAndEquipment d = calculateLaborAndEquipment d'"
  using assms
  by (auto simp add: calculateLaborAndEquipment_def Let_def split: if_splits)

lemma generateEstimate_cong:
  assumes "calculateMaterials (estimateData st) = calculateMaterials (estimateData st')"
    and "calculateLaborAndEquipment (estimateData st) = calculateLaborAndEquipment (estimateData st')"
    and "profitMargin (estimateData st) = profitMargin (estimateData st')"
  shows "calculatedEstimate (generateEstimate now st) = calculatedEstimate (generateEstimate now st')"
  using assms by (simp add: generateEstimate_result)

subsection \<open>The first sample job, evaluated\<close>

lemma job_1000_quantities:
  "sealMasterPMM (fst (calculateMaterials job_1000)) = 144 / 10"
  "sand (fst (calculateMaterials job_1000)) = 432 / 10"
  "water (fst (calculateMaterials job_1000)) = 288 / 100"
  "fastDry (fst (calculateMaterials job_1000)) = 144 / 625"
  "prepSeal (fst (calculateMaterials job_1000)) = 0"
  "crackMaster (fst (calculateMaterials job_1000)) = 0"
proof -
  show pmm: "sealMasterPMM (fst (calculateMaterials job_1000)) = 144 / 10"
    by (simp add: sealMasterPMM_eq job_1000_def)
  show "sand (fst (calculateMaterials job_1000)) = 432 / 10"
    by (simp add: sand_eq pmm)
  show "water (fst (calculateMaterials job_1000)) = 288 / 100"
    by (simp add: water_eq pmm)
  show "fastDry (fst (calculateMaterials job_1000)) = 144 / 625"
    by (simp add: fastDry_eq pmm)
  show "prepSeal (fst (calculateMaterials job_1000)) = 0"
    by (simp add: prepSeal_eq job_1000_def)
  show "crackMaster (fst (calculateMaterials job_1000)) = 0"
    by (simp add: crackMaster_eq job_1000_def)
qed

lemma job_1000_rounding:
  "Math_ceil (sand (fst (calculateMaterials job_1000)) / 50) = 1"
  "Math_ceil (fastDry (fst (calculateMaterials job_1000)) / 5) = 1"
  using Math_ceil_eqI [of 1 "sand (fst (calculateMaterials job_1000)) / 50"]
    Math_ceil_eqI [of 1 "fastDry (fst (calculateMaterials job_1000)) / 5"]
  by (simp_all add: job_1000_quantities)

lemma job_1000_costs:
  "cost_sealMasterPMM (snd (calculateMaterials job_1000)) = 144 / 10 * (379 / 100)"
  "cost_sand (snd (calculateMaterials job_1000)) = 10"
  "cost_prepSeal (snd (calculateMaterials job_1000)) = 0"
  "cost_fastDry (snd (calculateMaterials job_1000)) = 50"
  "cost_crackMaster (snd (calculateMaterials job_1000)) = 0"
  using job_1000_rounding
  by (simp_all add: costs_eq materialCosts_def job_1000_quantities(1,5,6) config_defs)

section \<open>The claims\<close>

text \<open>
  Claim C1. For every job whose numeric fields are all non-negative and whose profit
  margin lies between 0 and 100, \<open>generateEstimate\<close> stores an estimate in which the
  subtotal is the total material cost plus the total labor, the overhead is the subtotal
  times 0.15, the profit is the subtotal times the profit margin over 100, and the total
  is the sum of subtotal, overhead and profit.
\<close>

theorem C1_estimate_totals:
  assumes "nonneg_fields (estimateData st)" and "profitMargin (estimateData st) \<le> 100"
  shows "\<exists>e. calculatedEstimate (generateEstimate now st) = Some e \<and>
           subtotal e = totalMaterialCost (materials e) + totalLabor (labor e) \<and>
           overhead e = subtotal e * (15 / 100) \<and>
           profit e = subtotal e * (profitMargin (estimateData st) / 100) \<and>
           total_est e = subtotal e + overhead e + profit e"
  by (simp add: generateEstimate_result)

theorem C1_estimate_totals_witness:
  "nonneg_fields (estimateData (initial job_1000)) \<and>
   profitMargin (estimateData (initial job_1000)) \<le> 100 \<and>
   (\<exists>e. calculatedEstimate (generateEstimate ''2025-01-01T00:00:00.000Z'' (initial job_1000)) = Some e \<and>
        subtotal e = totalMaterialCost (materials e) + totalLabor (labor e) \<and>
        overhead e = subtotal e * (15 / 100) \<and>
        profit e = subtotal e * (profitMargin (estimateData (initial job_1000)) / 100) \<and>
        total_est e = subtotal e + overhead e + profit e)"
proof -
  have h1: "nonneg_fields (estimateData (initial job_1000))"
    by (simp add: initial_def job_1000_def nonneg_fields_def)
  have h2: "profitMargin (estimateData (initial job_1000)) \<le> 100"
    by (simp add: initial_def job_1000_def)
  show ?thesis
    using h1 h2 C1_estimate_totals [OF h1 h2, of "''2025-01-01T00:00:00.000Z''"] by blast
qed

text \<open>
  Claim C2. For every valid job (non-negative numeric fields, one to three coats, one of
  the three severities, profit margin between 0 and 100) every component cost of the
  stored estimate is non-negative: the five material line costs, the labor cost, the
  equipment cost, the fuel cost, the overhead and the profit. Moreover the total is at
  least the subtotal, and the subtotal is at least, and in fact equal to, the total
  material cost plus the total labor.
\<close>

theorem C2_costs_nonneg:
  assumes "valid_job (estimateData st)"
  shows "\<exists>e. calculatedEstimate (generateEstimate now st) = Some e \<and>
           0 \<le> cost_sealMasterPMM (costs e) \<and> 0 \<le> cost_sand (costs e) \<and>
           0 \<le> cost_prepSeal (costs e) \<and> 0 \<le> cost_fastDry (costs e) \<and>
           0 \<le> cost_crackMaster (costs e) \<and>
           0 \<le> laborCost (labor e) \<and> 0 \<le> equipmentCost (labor e) \<and>
           0 \<le> fuelCost (labor e) \<and> 0 \<le> overhead e \<and> 0 \<le> profit e \<and>
           subtotal e \<le> total_est e \<and>
           totalMaterialCost (materials e) + totalLabor (labor e) \<le> subtotal e \<and>
           subtotal e = totalMaterialCost (materials e) + totalLabor (labor e)"
proof -
  let ?d = "estimateData st"
  let ?c = "snd (calculateMaterials ?d)"
  let ?l = "calculateLaborAndEquipment ?d"
  let ?sub = "totalMaterialCost (fst (calculateMaterials ?d)) + totalLabor ?l"
  from assms have sq: "0 \<le> squareFootage ?d" and co: "1 \<le> numberOfCoats ?d"
    and tr: "0 \<le> travelDistance ?d" and pm: "0 \<le> profitMargin ?d"
    by (auto simp: valid_job_def nonneg_fields_def)
  note mc = material_costs_nonneg [OF sq co]
  note lc = labor_costs_nonneg [OF tr]
  have sub: "0 \<le> ?sub"
    using mc lc by (simp add: totalMaterialCost_eq labor_costs_eq(4))
  have ovh: "0 \<le> ?sub * (15 / 100)" using sub by simp
  have pr: "0 \<le> ?sub * (profitMargin ?d / 100)" using sub pm by simp
  show ?thesis
    using mc lc ovh pr by (simp add: generateEstimate_result)
qed

theorem C2_costs_nonneg_witness:
  "valid_job (estimateData (initial job_combo)) \<and>
   (\<exists>e. calculatedEstimate (generateEstimate ''2025-01-01T00:00:00.000Z'' (initial job_combo)) = Some e \<and>
           0 \<le> cost_sealMasterPMM (costs e) \<and> 0 \<le> cost_sand (costs e) \<and>
           0 \<le> cost_prepSeal (costs e) \<and> 0 \<le> cost_fastDry (costs e) \<and>
           0 \<le> cost_crackMaster (costs e) \<and>
           0 \<le> laborCost (labor e) \<and> 0 \<le> equipmentCost (labor e) \<and>
           0 \<le> fuelCost (labor e) \<and> 0 \<le> overhead e \<and> 0 \<le> profit e \<and>
           subtotal e \<le> total_est e \<and>
           totalMaterialCost (materials e) + totalLabor (labor e) \<le> subtotal e \<and>
           subtotal e = totalMaterialCost (materials e) + totalLabor (labor e))"
proof -
  have h: "valid_job (estimateData (initial job_combo))"
    by (simp add: initial_def job_combo_def valid_job_def nonneg_fields_def)
  show ?thesis
    using h C2_costs_nonneg [OF h, of "''2025-01-01T00:00:00.000Z''"] by blast
qed

text \<open>
  Claim C3 (as the specification states it: for every job in which a numeric field is
  negative, or \<open>numberOfCoats\<close>, \<open>crackSeverity\<close> or \<open>projectType\<close> is outside its
  domain, the engine rejects the call before computing anything, and it never silently
  treats a negative quantity as zero). The code does not do this: with negative areas and
  a negative crack length, \<open>generateEstimate\<close> stores an estimate, and it is the estimate
  of the same job with these three quantities set to zero.
\<close>

theorem C3_counterexample:
  "squareFootage (estimateData (initial job_negative)) < 0 \<and>
   calculatedEstimate (generateEstimate ''2025-01-01T00:00:00.000Z'' (initial job_negative)) \<noteq> None \<and>
   calculatedEstimate (generateEstimate ''2025-01-01T00:00:00.000Z'' (initial job_negative)) =
   calculatedEstimate (generateEstimate ''2025-01-01T00:00:00.000Z'' (initial job_zero))"
proof -
  have neg: "squareFootage (estimateData (initial job_negative)) < 0"
    by (simp add: initial_def job_negative_def)
  have stored: "calculatedEstimate (generateEstimate ''2025-01-01T00:00:00.000Z'' (initial job_negative)) \<noteq> None"
    by (simp add: generateEstimate_result)
  have same: "calculatedEstimate (generateEstimate ''2025-01-01T00:00:00.000Z'' (initial job_negative)) =
      calculatedEstimate (generateEstimate ''2025-01-01T00:00:00.000Z'' (initial job_zero))"
    by (intro generateEstimate_cong calculateMaterials_cong calculateLaborAndEquipment_cong)
      (simp_all add: initial_def job_negative_def job_zero_def job_1000_def)
  from neg stored same show ?thesis by simp
qed

text \<open>
  Claim C3, amended. The engine validates nothing: for every job, whatever its numeric
  fields, coats, severity and project type, \<open>generateEstimate\<close> computes and stores an
  estimate. A negative \<open>squareFootage\<close>, \<open>linearFootage\<close> or \<open>oilSpotArea\<close> gives exactly
  the estimate of the value 0 (the guards \<open>> 0\<close> skip its block), and \<open>projectType\<close> has
  no effect on the estimate.
\<close>

theorem C3_no_validation:
  "(\<exists>e. calculatedEstimate (generateEstimate now st) = Some e) \<and>
   (squareFootage (estimateData st) < 0 \<longrightarrow>
      calculatedEstimate (generateEstimate now st) =
      calculatedEstimate (generateEstimate now (st\<lparr> estimateData := (estimateData st)\<lparr> squareFootage := 0 \<rparr> \<rparr>))) \<and>
   (linearFootage (estimateData st) < 0 \<longrightarrow>
      calculatedEstimate (generateEstimate now st) =
      calculatedEstimate (generateEstimate now (st\<lparr> estimateData := (estimateData st)\<lparr> linearFootage := 0 \<rparr> \<rparr>))) \<and>
   (oilSpotArea (estimateData st) < 0 \<longrightarrow>
      calculatedEstimate (generateEstimate now st) =
      calculatedEstimate (generateEstimate now (st\<lparr> estimateData := (estimateData st)\<lparr> oilSpotArea := 0 \<rparr> \<rparr>))) \<and>
   calculatedEstimate (generateEstimate now (st\<lparr> estimateData := (estimateData st)\<lparr> projectType := p \<rparr> \<rparr>)) =
   calculatedEstimate (generateEstimate now st)"
proof (intro conjI impI)
  show "\<exists>e. calculatedEstimate (generateEstimate now st) = Some e"
    by (simp add: generateEstimate_result)
next
  assume "squareFootage (estimateData st) < 0"
  then show "calculatedEstimate (generateEstimate now st) =
      calculatedEstimate (generateEstimate now (st\<lparr> estimateData := (estimateData st)\<lparr> squareFootage := 0 \<rparr> \<rparr>))"
    by (intro generateEstimate_cong calculateMaterials_cong calculateLaborAndEquipment_cong) simp_all
next
  assume "linearFootage (estimateData st) < 0"
  then show "calculatedEstimate (generateEstimate now st) =
      calculatedEstimate (generateEstimate now (st\<lparr> estimateData := (estimateData st)\<lparr> linearFootage := 0 \<rparr> \<rparr>))"
    by (intro generateEstimate_cong calculateMaterials_cong calculateLaborAndEquipment_cong) simp_all
next
  assume "oilSpotArea (estimateData st) < 0"
  then show "calculatedEstimate (generateEstimate now st) =
      calculatedEstimate (generateEstimate now (st\<lparr> estimateData := (estimateData st)\<lparr> oilSpotArea := 0 \<rparr> \<rparr>))"
    by (intro generateEstimate_cong calculateMaterials_cong calculateLaborAndEquipment_cong) simp_all
next
  show "calculatedEstimate (generateEstimate now (st\<lparr> estimateData := (estimateData st)\<lparr> projectType := p \<rparr> \<rparr>)) =
   calculatedEstimate (generateEstimate now st)"
    by (intro generateEstimate_cong calculateMaterials_cong calculateLaborAndEquipment_cong) simp_all
qed

theorem C3_no_validation_witness:
  "squareFootage (estimateData (initial job_negative)) < 0 \<and>
   linearFootage (estimateData (initial job_negative)) < 0 \<and>
   oilSpotArea (estimateData (initial job_negative)) < 0 \<and>
   (\<exists>e. calculatedEstimate (generateEstimate ''2025-01-01T00:00:00.000Z'' (initial job_negative)) = Some e) \<and>
   calculatedEstimate (generateEstimate ''2025-01-01T00:00:00.000Z'' (initial job_negative)) =
   calculatedEstimate (generateEstimate ''2025-01-01T00:00:00.000Z''
     ((initial job_negative)\<lparr> estimateData := (estimateData (initial job_negative))\<lparr> squareFootage := 0 \<rparr> \<rparr>)) \<and>
   calculatedEstimate (generateEstimate ''2025-01-01T00:00:00.000Z'' (initial job_negative)) =
   calculatedEstimate (generateEstimate ''2025-01-01T00:00:00.000Z''
     ((initial job_negative)\<lparr> estimateData := (estimateData (initial job_negative))\<lparr> linearFootage := 0 \<rparr> \<rparr>)) \<and>
   calculatedEstimate (generateEstimate ''2025-01-01T00:00:00.000Z'' (initial job_negative)) =
   calculatedEstimate (generateEstimate ''2025-01-01T00:00:00.000Z''
     ((initial job_negative)\<lparr> estimateData := (estimateData (initial job_negative))\<lparr> oilSpotArea := 0 \<rparr> \<rparr>)) \<and>
   calculatedEstimate (generateEstimate ''2025-01-01T00:00:00.000Z''
     ((initial job_negative)\<lparr> estimateData := (estimateData (initial job_negative))\<lparr> projectType := ''paving'' \<rparr> \<rparr>)) =
   calculatedEstimate (generateEstimate ''2025-01-01T00:00:00.000Z'' (initial job_negative))"
proof -
  have h: "squareFootage (estimateData (initial job_negative)) < 0"
      "linearFootage (estimateData (initial job_negative)) < 0"
      "oilSpotArea (estimateData (initial job_negative)) < 0"
    by (simp_all add: initial_def job_negative_def job_1000_def)
  show ?thesis
    using h C3_no_validation [of "''2025-01-01T00:00:00.000Z''" "initial job_negative" "''paving''"]
    by blast
qed

text \<open>
  Claim C4. When \<open>oilSpotArea > 0\<close>, the primer quantity \<open>prepSeal\<close> is the ceiling of
  \<open>oilSpotArea / 175\<close>, the raw gallons, with no division by the bucket size of 5
  gallons, and its cost is that integer times the bucket price of 50 dollars. When
  \<open>oilSpotArea = 0\<close>, the quantity and the cost are 0.
\<close>

theorem C4_primer:
  "(0 < oilSpotArea d \<longrightarrow>
      prepSeal (fst (calculateMaterials d)) = of_int \<lceil>oilSpotArea d / 175\<rceil> \<and>
      cost_prepSeal (snd (calculateMaterials d)) =
        of_int \<lceil>oilSpotArea d / 175\<rceil> * MATERIAL_COSTS_prepSeal5gal \<and>
      MATERIAL_COSTS_prepSeal5gal = 50) \<and>
   (oilSpotArea d = 0 \<longrightarrow>
      prepSeal (fst (calculateMaterials d)) = 0 \<and> cost_prepSeal (snd (calculateMaterials d)) = 0)"
  by (simp add: costs_eq materialCosts_def prepSeal_eq Math_ceil_def config_defs)

theorem C4_primer_witness:
  "0 < oilSpotArea job_oil \<and>
   prepSeal (fst (calculateMaterials job_oil)) = 3 \<and>
   cost_prepSeal (snd (calculateMaterials job_oil)) = 150 \<and>
   oilSpotArea job_1000 = 0 \<and>
   prepSeal (fst (calculateMaterials job_1000)) = 0 \<and>
   cost_prepSeal (snd (calculateMaterials job_1000)) = 0"
proof -
  have h1: "0 < oilSpotArea job_oil" and v: "oilSpotArea job_oil = 400"
    by (simp_all add: job_oil_def job_1000_def)
  have h2: "oilSpotArea job_1000 = 0"
    by (simp add: job_1000_def)
  have r: "\<lceil>(16::rat) / 7\<rceil> = 3"
    by (rule ceiling_unique) simp_all
  show ?thesis
    using h1 h2 C4_primer [of job_oil] C4_primer [of job_1000] by (simp add: v r)
qed

text \<open>
  Claim C5. For every job the labor hours are the maximum of 4 and the sum of
  \<open>(squareFootage / 1000) * 2\<close> (when \<open>squareFootage > 0\<close>) and \<open>linearFootage / 100\<close>
  (when \<open>linearFootage > 0\<close>); so they are at least 4, and exactly 4 when both
  quantities are 0.
\<close>

theorem C5_labor_floor:
  "laborHours (calculateLaborAndEquipment d) =
     max ((if 0 < squareFootage d then (squareFootage d / 1000) * 2 else 0)
          + (if 0 < linearFootage d then linearFootage d / 100 else 0)) 4 \<and>
   4 \<le> laborHours (calculateLaborAndEquipment d) \<and>
   (squareFootage d = 0 \<and> linearFootage d = 0 \<longrightarrow> laborHours (calculateLaborAndEquipment d) = 4)"
  by (simp add: laborHours_eq)

theorem C5_labor_floor_witness:
  "squareFootage job_zero = 0 \<and> linearFootage job_zero = 0 \<and>
   laborHours (calculateLaborAndEquipment job_zero) = 4"
proof -
  have h: "squareFootage job_zero = 0 \<and> linearFootage job_zero = 0"
    by (simp add: job_zero_def job_1000_def)
  show ?thesis
    using h C5_labor_floor [of job_zero] by blast
qed

text \<open>
  Claim C6. When \<open>linearFootage > 0\<close>, the number of crack-filler boxes is the ceiling
  of \<open>(linearFootage * m) / 100\<close> with \<open>m = 1.5\<close> for severe, \<open>1.2\<close> for moderate and
  \<open>1.0\<close> for light cracks. With 500 linear feet of severe cracks the adjusted length is
  750 and the count is 8 boxes.
\<close>

theorem C6_crack_boxes:
  assumes "0 < linearFootage d"
  shows "(crackSeverity d = ''severe'' \<longrightarrow>
            crackMaster (fst (calculateMaterials d)) = of_int \<lceil>(linearFootage d * (15 / 10)) / 100\<rceil>) \<and>
         (crackSeverity d = ''moderate'' \<longrightarrow>
            crackMaster (fst (calculateMaterials d)) = of_int \<lceil>(linearFootage d * (12 / 10)) / 100\<rceil>) \<and>
         (crackSeverity d = ''light'' \<longrightarrow>
            crackMaster (fst (calculateMaterials d)) = of_int \<lceil>(linearFootage d * 1) / 100\<rceil>) \<and>
         (linearFootage d = 500 \<and> crackSeverity d = ''severe'' \<longrightarrow>
            linearFootage d * crackMultiplier (crackSeverity d) = 750 \<and>
            crackMaster (fst (calculateMaterials d)) = 8)"
  using assms by (simp add: crackMaster_eq crackMultiplier_def Math_ceil_def ceiling_unique)

theorem C6_crack_boxes_witness:
  "0 < linearFootage job_cracks \<and> linearFootage job_cracks = 500 \<and>
   crackSeverity job_cracks = ''severe'' \<and>
   linearFootage job_cracks * crackMultiplier (crackSeverity job_cracks) = 750 \<and>
   crackMaster (fst (calculateMaterials job_cracks)) = 8 \<and>
   crackMaster (fst (calculateMaterials (job_cracks\<lparr> crackSeverity := ''moderate'' \<rparr>))) = 6 \<and>
   crackMaster (fst (calculateMaterials (job_cracks\<lparr> crackSeverity := ''light'' \<rparr>))) = 5"
proof -
  have h: "0 < linearFootage job_cracks" "linearFootage job_cracks = 500"
      "crackSeverity job_cracks = ''severe''"
    by (simp_all add: job_cracks_def job_1000_def)
  have hm: "0 < linearFootage (job_cracks\<lparr> crackSeverity := ''moderate'' \<rparr>)"
    and hl: "0 < linearFootage (job_cracks\<lparr> crackSeverity := ''light'' \<rparr>)"
    using h(1) by simp_all
  have r: "\<lceil>(500::rat) * (12 / 10) / 100\<rceil> = 6" "\<lceil>(500::rat) * 1 / 100\<rceil> = 5"
    by (rule ceiling_unique, simp, simp)+
  show ?thesis
    using h C6_crack_boxes [OF h(1)] C6_crack_boxes [OF hm] C6_crack_boxes [OF hl] r
    by simp
qed

text \<open>
  Claim C7 (as the specification states it: for 1000 square feet, one coat, everything
  else 0 and a profit margin of 20, the total material cost is the first-coat gallons
  times the sealant price plus one bag of sand). The code adds one bucket of fast-dry
  additive as well, so the total material cost is not that sum.
\<close>

theorem C7_counterexample:
  "totalMaterialCost (fst (calculateMaterials job_1000)) \<noteq>
     squareFootage job_1000 * APPLICATION_RATES_sealcoat_firstCoat * MATERIAL_COSTS_sealMasterPMM
     + 1 * MATERIAL_COSTS_sand50lb"
  by (simp add: totalMaterialCost_eq job_1000_costs config_defs) (simp add: job_1000_def)

text \<open>
  Claim C7, amended. For that job the sealant quantity is 14.4 gallons, the sand is 43.2
  pounds priced as 1 bag, the water is 2.88 gallons, the fast-dry additive is priced as 1
  bucket, the total material cost is the first-coat gallons times the sealant price plus
  one bag of sand plus one bucket of fast-dry additive, and the labor hours, 2 before the
  floor, are 4.
\<close>

theorem C7_scenario_1:
  "sealMasterPMM (fst (calculateMaterials job_1000)) = 144 / 10 \<and>
   sand (fst (calculateMaterials job_1000)) = 432 / 10 \<and>
   Math_ceil (sand (fst (calculateMaterials job_1000)) / 50) = 1 \<and>
   cost_sand (snd (calculateMaterials job_1000)) = 1 * MATERIAL_COSTS_sand50lb \<and>
   water (fst (calculateMaterials job_1000)) = 288 / 100 \<and>
   cost_fastDry (snd (calculateMaterials job_1000)) = 1 * MATERIAL_COSTS_fastDry5gal \<and>
   totalMaterialCost (fst (calculateMaterials job_1000)) =
     squareFootage job_1000 * APPLICATION_RATES_sealcoat_firstCoat * MATERIAL_COSTS_sealMasterPMM
     + 1 * MATERIAL_COSTS_sand50lb + 1 * MATERIAL_COSTS_fastDry5gal \<and>
   (squareFootage job_1000 / 1000) * 2 = 2 \<and>
   laborHours (calculateLaborAndEquipment job_1000) = 4"
proof -
  have sq: "squareFootage job_1000 = 1000" and lf: "linearFootage job_1000 = 0"
    by (simp_all add: job_1000_def)
  have "laborHours (calculateLaborAndEquipment job_1000) = 4"
    by (simp add: laborHours_eq sq lf)
  then show ?thesis
    using job_1000_rounding(1)
    by (simp add: totalMaterialCost_eq job_1000_costs job_1000_quantities(1,2,3) config_defs sq)
qed

text \<open>
  Claim C8. For a fixed \<open>linearFootage > 0\<close>, all other fields equal, the number of
  crack-filler boxes grows with the severity: light is at most moderate, and moderate is
  at most severe.
\<close>

theorem C8_severity_monotone:
  assumes "0 < linearFootage d"
  shows "crackMaster (fst (calculateMaterials (d\<lparr> crackSeverity := ''light'' \<rparr>)))
           \<le> crackMaster (fst (calculateMaterials (d\<lparr> crackSeverity := ''moderate'' \<rparr>))) \<and>
         crackMaster (fst (calculateMaterials (d\<lparr> crackSeverity := ''moderate'' \<rparr>)))
           \<le> crackMaster (fst (calculateMaterials (d\<lparr> crackSeverity := ''severe'' \<rparr>)))"
proof -
  have a: "linearFootage d * 1 / 100 \<le> linearFootage d * (12 / 10) / 100"
    using assms by simp
  have b: "linearFootage d * (12 / 10) / 100 \<le> linearFootage d * (15 / 10) / 100"
    using assms by simp
  show ?thesis
    using assms Math_ceil_mono [OF a] Math_ceil_mono [OF b]
    by (simp add: crackMaster_eq crackMultiplier_def)
qed

theorem C8_severity_monotone_witness:
  "0 < linearFootage job_cracks \<and>
   crackMaster (fst (calculateMaterials (job_cracks\<lparr> crackSeverity := ''light'' \<rparr>)))
     \<le> crackMaster (fst (calculateMaterials (job_cracks\<lparr> crackSeverity := ''moderate'' \<rparr>))) \<and>
   crackMaster (fst (calculateMaterials (job_cracks\<lparr> crackSeverity := ''moderate'' \<rparr>)))
     \<le> crackMaster (fst (calculateMaterials (job_cracks\<lparr> crackSeverity := ''severe'' \<rparr>)))"
proof -
  have h: "0 < linearFootage job_cracks"
    by (simp add: job_cracks_def job_1000_def)
  show ?thesis
    using h C8_severity_monotone [OF h] by blast
qed

text \<open>
  Claim C9. When \<open>linearFootage > 0\<close> and \<open>crackSeverity\<close> is any string other than
  \<open>severe\<close> and \<open>moderate\<close> (the empty string, for one), the multiplier is 1.0 and
  \<open>calculateMaterials\<close> returns what it returns for \<open>light\<close>. The function has no
  failing branch: it returns a result for every input.
\<close>

theorem C9_other_severity_is_light:
  assumes "0 < linearFootage d" and "s \<noteq> ''severe''" and "s \<noteq> ''moderate''"
  shows "crackMultiplier s = 1 \<and>
         calculateMaterials (d\<lparr> crackSeverity := s \<rparr>) =
         calculateMaterials (d\<lparr> crackSeverity := ''light'' \<rparr>)"
  using assms
  by (auto simp add: crackMultiplier_def intro!: calculateMaterials_cong)

theorem C9_other_severity_is_light_witness:
  "0 < linearFootage job_cracks \<and> '''' \<noteq> ''severe'' \<and> '''' \<noteq> ''moderate'' \<and>
   crackMultiplier '''' = 1 \<and>
   calculateMaterials (job_cracks\<lparr> crackSeverity := '''' \<rparr>) =
   calculateMaterials (job_cracks\<lparr> crackSeverity := ''light'' \<rparr>)"
proof -
  have h: "0 < linearFootage job_cracks"
    by (simp add: job_cracks_def job_1000_def)
  have s1: "'''' \<noteq> ''severe''" and s2: "'''' \<noteq> ''moderate''"
    by simp_all
  show ?thesis
    using h s1 s2 C9_other_severity_is_light [OF h s1 s2] by blast
qed

text \<open>
  Claim C10. The water quantity is 0.20 times the concentrate gallons and is stored in
  the materials, but it has no price: the total material cost is the sum of the sealant,
  sand, prep-seal, fast-dry and crack-filler line costs, and the cost lines computed from
  the materials stay the same when only the water quantity is changed.
\<close>

theorem C10_water_unpriced:
  "water (fst (calculateMaterials d)) = (20 / 100) * sealMasterPMM (fst (calculateMaterials d)) \<and>
   totalMaterialCost (fst (calculateMaterials d)) =
     cost_sealMasterPMM (snd (calculateMaterials d)) + cost_sand (snd (calculateMaterials d))
     + cost_prepSeal (snd (calculateMaterials d)) + cost_fastDry (snd (calculateMaterials d))
     + cost_crackMaster (snd (calculateMaterials d)) \<and>
   snd (calculateMaterials d) = materialCosts (fst (calculateMaterials d)) \<and>
   materialCosts ((fst (calculateMaterials d))\<lparr> water := w \<rparr>) = materialCosts (fst (calculateMaterials d)) \<and>
   materialCosts (m\<lparr> water := w \<rparr>) = materialCosts m \<and>
   foldl (\<lambda>sum cost. sum + cost) 0 (Object_values (materialCosts (m\<lparr> water := w \<rparr>))) =
   foldl (\<lambda>sum cost. sum + cost) 0 (Object_values (materialCosts m))"
  by (simp add: water_eq totalMaterialCost_eq costs_eq materialCosts_def)

end
